theory Spec2Isabelle
  imports Complex_Main "HOL-Library.AList"
begin

section \<open>Python values, exceptions and the primitive operations the adapter uses\<close>

text \<open>
  The Jira adapter (\<^verbatim>\<open>bugwarrior/services/jira.py\<close>) works on decoded JSON: nested
  dictionaries with string keys, lists, strings, numbers, booleans and \<^verbatim>\<open>None\<close>.
  A dictionary is an association list whose first binding of a key is the one in force.
  The embedding follows Python 3: \<^verbatim>\<open>/\<close> is true division and \<^verbatim>\<open>str\<close> is the text type.
  A float carries the exact real value of the result (rounding, infinities and NaN are not
  represented); a string is a list of characters.
\<close>

datatype pyval =
    PyNone
  | PyBool bool
  | PyInt int
  | PyFloat real
  | PyStr string
  | PyList "pyval list"
  | PyDict "(string \<times> pyval) list"

type_synonym pydict = "(string \<times> pyval) list"

text \<open>Every exception a method of the adapter can raise is a value of this type.\<close>

datatype pyerr =
    KeyError
  | TypeError
  | AttributeError
  | IndexError
  | ValueError
  | OverflowError
  | ZeroDivisionError
  | TemplateError

text \<open>Sequencing: the first exception ends the evaluation.\<close>

definition then_py :: "pyerr + 'a \<Rightarrow> ('a \<Rightarrow> pyerr + 'b) \<Rightarrow> pyerr + 'b" where
  "then_py m f = (case m of Inl e \<Rightarrow> Inl e | Inr v \<Rightarrow> f v)"

text \<open>\<^verbatim>\<open>try: m except (es): h\<close>: only the listed exceptions are absorbed.\<close>

definition except_py :: "pyerr + 'a \<Rightarrow> pyerr list \<Rightarrow> pyerr + 'a \<Rightarrow> pyerr + 'a" where
  "except_py m es h = (case m of Inl e \<Rightarrow> (if e \<in> set es then h else Inl e) | Inr v \<Rightarrow> Inr v)"

text \<open>\<^verbatim>\<open>d[k]\<close> and \<^verbatim>\<open>d.get(k, default)\<close> on an object known to be a dictionary.\<close>

definition dict_item :: "pydict \<Rightarrow> string \<Rightarrow> pyerr + pyval" where
  "dict_item d k = (case map_of d k of None \<Rightarrow> Inl KeyError | Some v \<Rightarrow> Inr v)"

definition dict_get :: "pydict \<Rightarrow> string \<Rightarrow> pyval \<Rightarrow> pyval" where
  "dict_get d k dflt = (case map_of d k of None \<Rightarrow> dflt | Some v \<Rightarrow> v)"

text \<open>\<^verbatim>\<open>d.update(new)\<close>: the bindings of \<^verbatim>\<open>new\<close> are stored one after the other.\<close>

definition dict_update :: "pydict \<Rightarrow> pydict \<Rightarrow> pydict" where
  "dict_update d new = foldl (\<lambda>acc kv. AList.update (fst kv) (snd kv) acc) d new"

text \<open>
  \<^verbatim>\<open>x[k]\<close> with a string key on an arbitrary value: a dictionary looks the key up, every
  other value raises \<^verbatim>\<open>TypeError\<close> (not subscriptable, or indices must be integers).
\<close>

fun subscript :: "pyval \<Rightarrow> string \<Rightarrow> pyerr + pyval" where
  "subscript (PyDict d) k = dict_item d k"
| "subscript v k = Inl TypeError"

text \<open>\<^verbatim>\<open>x.get(k, default)\<close> on an arbitrary value: only a dictionary has the method.\<close>

fun get_method :: "pyval \<Rightarrow> string \<Rightarrow> pyval \<Rightarrow> pyerr + pyval" where
  "get_method (PyDict d) k dflt = Inr (dict_get d k dflt)"
| "get_method v k dflt = Inl AttributeError"

text \<open>
  \<^verbatim>\<open>x[0]\<close>: the first element of a list or string; a JSON object has string keys only,
  so the key \<^verbatim>\<open>0\<close> is never found.
\<close>

fun item0 :: "pyval \<Rightarrow> pyerr + pyval" where
  "item0 (PyList xs) = (case xs of [] \<Rightarrow> Inl IndexError | x # rest \<Rightarrow> Inr x)"
| "item0 (PyStr s) = (case s of [] \<Rightarrow> Inl IndexError | c # rest \<Rightarrow> Inr (PyStr [c]))"
| "item0 (PyDict d) = Inl KeyError"
| "item0 v = Inl TypeError"

text \<open>\<^verbatim>\<open>x + y\<close> where one operand is known to be a string: both must be strings.\<close>

fun str_add :: "pyval \<Rightarrow> pyval \<Rightarrow> pyerr + pyval" where
  "str_add (PyStr a) (PyStr b) = Inr (PyStr (a @ b))"
| "str_add a b = Inl TypeError"

text \<open>
  \<^verbatim>\<open>x / k\<close> for an integer literal \<^verbatim>\<open>k\<close>: true division of a number, \<^verbatim>\<open>TypeError\<close> for
  everything else. An integer quotient that rounds to \<open>2 ^ 1024\<close> or beyond is too large
  for a float.
\<close>

fun py_truediv :: "pyval \<Rightarrow> int \<Rightarrow> pyerr + pyval" where
  "py_truediv (PyInt a) k =
     (if k = 0 then Inl ZeroDivisionError
      else if \<bar>real_of_int a / real_of_int k\<bar> < 2 ^ 1024 - 2 ^ 970
        then Inr (PyFloat (real_of_int a / real_of_int k))
      else Inl OverflowError)"
| "py_truediv (PyBool b) k =
     (if k = 0 then Inl ZeroDivisionError
      else Inr (PyFloat ((if b then 1 else 0) / real_of_int k)))"
| "py_truediv (PyFloat x) k =
     (if k = 0 then Inl ZeroDivisionError else Inr (PyFloat (x / real_of_int k)))"
| "py_truediv v k = Inl TypeError"

text \<open>\<^verbatim>\<open>x == k\<close> for an integer literal \<^verbatim>\<open>k\<close>.\<close>

fun py_eq_int :: "pyval \<Rightarrow> int \<Rightarrow> bool" where
  "py_eq_int (PyInt a) k = (a = k)"
| "py_eq_int (PyBool b) k = ((if b then 1 else 0) = k)"
| "py_eq_int (PyFloat x) k = (x = real_of_int k)"
| "py_eq_int v k = False"

text \<open>Truth value of an object, as \<^verbatim>\<open>not x\<close> and \<^verbatim>\<open>if x\<close> read it.\<close>

fun truthy :: "pyval \<Rightarrow> bool" where
  "truthy PyNone = False"
| "truthy (PyBool b) = b"
| "truthy (PyInt a) = (a \<noteq> 0)"
| "truthy (PyFloat x) = (x \<noteq> 0)"
| "truthy (PyStr s) = (s \<noteq> [])"
| "truthy (PyList xs) = (xs \<noteq> [])"
| "truthy (PyDict d) = (d \<noteq> [])"

text \<open>
  \<^verbatim>\<open>for x in v\<close>: a list yields its elements, a string its characters, a dictionary its
  keys; nothing else is iterable.
\<close>

fun py_iter :: "pyval \<Rightarrow> pyerr + pyval list" where
  "py_iter (PyList xs) = Inr xs"
| "py_iter (PyStr s) = Inr (map (\<lambda>c. PyStr [c]) s)"
| "py_iter (PyDict d) = Inr (map (\<lambda>kv. PyStr (fst kv)) d)"
| "py_iter v = Inl TypeError"

subsection \<open>Decimal digits\<close>

definition is_digit :: "char \<Rightarrow> bool" where
  "is_digit c = (c \<in> set ''0123456789'')"

definition digit_val :: "char \<Rightarrow> nat" where
  "digit_val c = length (takeWhile (\<lambda>d. d \<noteq> c) ''0123456789'')"

definition digit_char :: "nat \<Rightarrow> char" where
  "digit_char n = ''0123456789'' ! n"

text \<open>\<^verbatim>\<open>int(s)\<close> on a run of decimal digits.\<close>

definition nat_of_digits :: "string \<Rightarrow> nat" where
  "nat_of_digits s = foldl (\<lambda>a c. 10 * a + digit_val c) 0 s"

text \<open>\<^verbatim>\<open>str(n)\<close> for integers.\<close>

fun str_of_nat :: "nat \<Rightarrow> string" where
  "str_of_nat n =
     (if n < 10 then [digit_char n] else str_of_nat (n div 10) @ [digit_char (n mod 10)])"

declare str_of_nat.simps [simp del]

definition str_of_int :: "int \<Rightarrow> string" where
  "str_of_int a = (if a < 0 then CHR ''-'' # str_of_nat (nat (- a)) else str_of_nat (nat a))"

section \<open>The runtime outside the repository\<close>

text \<open>
  Two library behaviours are parameters of the model, since their code is not part of the
  repository: the text \<^verbatim>\<open>str\<close> gives for a float, a list or a dictionary, and the jinja2
  template engine (\<^verbatim>\<open>Template(source)\<close> compiles a template or fails; \<^verbatim>\<open>render(context)\<close>
  produces a string or fails).
\<close>

record runtime =
  py_repr :: "pyval \<Rightarrow> string"
  jinja_template :: "pyval \<Rightarrow> pyerr + (pydict \<Rightarrow> pyerr + string)"

fun py_str :: "runtime \<Rightarrow> pyval \<Rightarrow> string" where
  "py_str R PyNone = ''None''"
| "py_str R (PyBool b) = (if b then ''True'' else ''False'')"
| "py_str R (PyInt a) = str_of_int a"
| "py_str R (PyStr s) = s"
| "py_str R v = py_repr R v"

section \<open>JiraIssue\<close>

text \<open>
  An issue holds the raw payload (\<^verbatim>\<open>self.record\<close>), the origin configuration
  (\<^verbatim>\<open>self.origin\<close>) and the extra metadata (\<^verbatim>\<open>self.extra\<close>), each a dictionary.
\<close>

record issue =
  foreign_record :: pydict
  origin :: pydict
  extra :: pydict

definition URL :: string where "URL = ''jiraurl''"
definition SUMMARY :: string where "SUMMARY = ''jirasummary''"
definition FOREIGN_ID :: string where "FOREIGN_ID = ''jiraid''"
definition DESCRIPTION :: string where "DESCRIPTION = ''jiradescription''"
definition ESTIMATE :: string where "ESTIMATE = ''jiraestimate''"
definition FIX_VERSION :: string where "FIX_VERSION = ''jirafixversion''"

definition PRIORITY_MAP :: "(string \<times> string) list" where
  "PRIORITY_MAP =
     [(''Highest'', ''H''), (''High'', ''H''), (''Medium'', ''M''), (''Low'', ''L''),
      (''Lowest'', ''L''), (''Trivial'', ''L''), (''Minor'', ''L''), (''Major'', ''M''),
      (''Critical'', ''H''), (''Blocker'', ''H'')]"

subsection \<open>get_url, get_project, get_number\<close>

definition get_url :: "issue \<Rightarrow> pyerr + pyval" where
  "get_url i =
     then_py (dict_item (origin i) ''url'') (\<lambda>url.
     then_py (str_add url (PyStr ''/browse/'')) (\<lambda>prefix.
     then_py (dict_item (foreign_record i) ''key'') (\<lambda>key.
       str_add prefix key)))"

text \<open>
  \<^verbatim>\<open>s.rsplit('-', 1)\<close>: the text before the last hyphen and the text after it, or the
  whole string alone when it has no hyphen.
\<close>

definition rsplit_hyphen :: "string \<Rightarrow> string list" where
  "rsplit_hyphen s =
     (if CHR ''-'' \<in> set s
      then [rev (tl (dropWhile (\<lambda>c. c \<noteq> CHR ''-'') (rev s))),
            rev (takeWhile (\<lambda>c. c \<noteq> CHR ''-'') (rev s))]
      else [s])"

fun rsplit_method :: "pyval \<Rightarrow> pyerr + string list" where
  "rsplit_method (PyStr s) = Inr (rsplit_hyphen s)"
| "rsplit_method v = Inl AttributeError"

definition get_project :: "issue \<Rightarrow> pyerr + pyval" where
  "get_project i =
     then_py (dict_item (foreign_record i) ''key'') (\<lambda>key.
     then_py (rsplit_method key) (\<lambda>parts. Inr (PyStr (hd parts))))"

definition get_number :: "issue \<Rightarrow> pyerr + pyval" where
  "get_number i =
     then_py (dict_item (foreign_record i) ''key'') (\<lambda>key.
     then_py (rsplit_method key) (\<lambda>parts.
       (case parts of [a, b] \<Rightarrow> Inr (PyStr b) | other \<Rightarrow> Inl IndexError)))"

subsection \<open>get_summary, get_estimate\<close>

definition get_summary :: "issue \<Rightarrow> pyerr + pyval" where
  "get_summary i =
     (if py_eq_int (dict_get (extra i) ''jira_version'' PyNone) 4 then
        then_py (dict_item (foreign_record i) ''fields'') (\<lambda>fields.
        then_py (subscript fields ''summary'') (\<lambda>summary.
          subscript summary ''value''))
      else
        then_py (dict_item (foreign_record i) ''fields'') (\<lambda>fields.
          subscript fields ''summary''))"

definition get_estimate :: "issue \<Rightarrow> pyerr + pyval" where
  "get_estimate i =
     (if py_eq_int (dict_get (extra i) ''jira_version'' PyNone) 4 then
        then_py (dict_item (foreign_record i) ''fields'') (\<lambda>fields.
        then_py (subscript fields ''timeestimate'') (\<lambda>estimate.
          subscript estimate ''value''))
      else
        except_py
          (then_py (dict_item (foreign_record i) ''fields'') (\<lambda>fields.
           then_py (subscript fields ''timeestimate'') (\<lambda>estimate.
           then_py (py_truediv estimate 60) (\<lambda>minutes.
             py_truediv minutes 60))))
          [TypeError, KeyError]
          (Inr PyNone))"

subsection \<open>get_priority\<close>

text \<open>
  \<^verbatim>\<open>PRIORITY_MAP.get(value, default)\<close>: the key is hashed first, and a list or a
  dictionary is not hashable; a key that is not a string equals no key of the table.
\<close>

fun priority_map_get :: "pyval \<Rightarrow> pyval \<Rightarrow> pyerr + pyval" where
  "priority_map_get (PyStr s) dflt =
     Inr (case map_of PRIORITY_MAP s of None \<Rightarrow> dflt | Some p \<Rightarrow> PyStr p)"
| "priority_map_get (PyList xs) dflt = Inl TypeError"
| "priority_map_get (PyDict d) dflt = Inl TypeError"
| "priority_map_get v dflt = Inr dflt"

definition get_priority :: "runtime \<Rightarrow> issue \<Rightarrow> pyerr + pyval" where
  "get_priority R i =
     then_py (dict_item (foreign_record i) ''fields'') (\<lambda>fields.
     then_py (get_method fields ''priority'' PyNone) (\<lambda>value.
     then_py (except_py (subscript value ''name'') [TypeError]
                (Inr (PyStr (py_str R value)))) (\<lambda>label.
     then_py (dict_item (origin i) ''default_priority'') (\<lambda>dflt.
       priority_map_get label dflt))))"

subsection \<open>get_fix_version\<close>

definition get_fix_version :: "issue \<Rightarrow> pyerr + pyval" where
  "get_fix_version i =
     except_py
       (then_py (dict_item (foreign_record i) ''fields'') (\<lambda>fields.
        then_py (get_method fields ''fixVersions'' (PyList [PyDict []])) (\<lambda>versions.
        then_py (item0 versions) (\<lambda>first.
          get_method first ''name'' PyNone))))
       [IndexError, KeyError, AttributeError, TypeError]
       (Inr PyNone)"

subsection \<open>get_entry\<close>

text \<open>
  \<^verbatim>\<open>datetime.strptime(timestamp, '%Y-%m-%dT%H:%M:%S.%f')\<close> and
  \<^verbatim>\<open>strftime('%Y%m%dT%H%M%S')\<close> for the two format strings of the source. The parser
  follows the regular expression the library builds for the format: four digits for \<^verbatim>\<open>%Y\<close>,
  one or two digits within the directive's range for \<^verbatim>\<open>%m %d %H %M %S\<close> (a day may also be
  a space and one digit), one to six digits for \<^verbatim>\<open>%f\<close>, the literal \<^verbatim>\<open>T\<close> in either case,
  and nothing after the fraction. The fields then have to be a date and time of the
  calendar. Every failure is a \<^verbatim>\<open>ValueError\<close>.
\<close>

record datetime =
  year :: nat
  month :: nat
  day :: nat
  hour :: nat
  minute :: nat
  second :: nat
  microsecond :: nat

definition digit_run :: "string \<Rightarrow> string \<times> string" where
  "digit_run s = (takeWhile is_digit s, dropWhile is_digit s)"

text \<open>A numeric directive in front of a separator: the whole digit run, of a permitted
  width and value.\<close>

definition field :: "nat \<Rightarrow> nat \<Rightarrow> nat \<Rightarrow> nat \<Rightarrow> string \<Rightarrow> (nat \<times> string) option" where
  "field min_width max_width lo hi s =
     (let ds = fst (digit_run s); n = nat_of_digits ds in
      if min_width \<le> length ds \<and> length ds \<le> max_width \<and> lo \<le> n \<and> n \<le> hi
      then Some (n, snd (digit_run s)) else None)"

definition day_field :: "string \<Rightarrow> (nat \<times> string) option" where
  "day_field s =
     (case s of
        c # rest \<Rightarrow> (if c = CHR '' '' then field 1 1 1 9 rest else field 1 2 1 31 s)
      | [] \<Rightarrow> None)"

definition literal :: "string \<Rightarrow> string \<Rightarrow> string option" where
  "literal cs s = (case s of c # rest \<Rightarrow> (if c \<in> set cs then Some rest else None) | [] \<Rightarrow> None)"

definition fraction :: "string \<Rightarrow> nat option" where
  "fraction s =
     (let ds = fst (digit_run s) in
      if 1 \<le> length ds \<and> length ds \<le> 6 \<and> snd (digit_run s) = []
      then Some (nat_of_digits (ds @ replicate (6 - length ds) CHR ''0'')) else None)"

definition parse_created :: "string \<Rightarrow> datetime option" where
  "parse_created s =
     Option.bind (field 4 4 0 9999 s) (\<lambda>(y, s).
     Option.bind (literal ''-'' s) (\<lambda>s.
     Option.bind (field 1 2 1 12 s) (\<lambda>(m, s).
     Option.bind (literal ''-'' s) (\<lambda>s.
     Option.bind (day_field s) (\<lambda>(d, s).
     Option.bind (literal ''Tt'' s) (\<lambda>s.
     Option.bind (field 1 2 0 23 s) (\<lambda>(H, s).
     Option.bind (literal '':'' s) (\<lambda>s.
     Option.bind (field 1 2 0 59 s) (\<lambda>(M, s).
     Option.bind (literal '':'' s) (\<lambda>s.
     Option.bind (field 1 2 0 61 s) (\<lambda>(S, s).
     Option.bind (literal ''.'' s) (\<lambda>s.
     Option.bind (fraction s) (\<lambda>f.
       Some \<lparr>year = y, month = m, day = d, hour = H, minute = M, second = S,
             microsecond = f\<rparr>)))))))))))))"

definition is_leap :: "nat \<Rightarrow> bool" where
  "is_leap y = (y mod 4 = 0 \<and> (y mod 100 \<noteq> 0 \<or> y mod 400 = 0))"

definition days_in_month :: "nat \<Rightarrow> nat \<Rightarrow> nat" where
  "days_in_month y m =
     (if m = 2 then (if is_leap y then 29 else 28)
      else if m \<in> {4, 6, 9, 11} then 30 else 31)"

definition valid_datetime :: "datetime \<Rightarrow> bool" where
  "valid_datetime dt =
     (1 \<le> year dt \<and> year dt \<le> 9999 \<and> 1 \<le> month dt \<and> month dt \<le> 12
      \<and> 1 \<le> day dt \<and> day dt \<le> days_in_month (year dt) (month dt)
      \<and> hour dt \<le> 23 \<and> minute dt \<le> 59 \<and> second dt \<le> 59 \<and> microsecond dt \<le> 999999)"

definition strptime_created :: "string \<Rightarrow> pyerr + datetime" where
  "strptime_created s =
     (case parse_created s of
        None \<Rightarrow> Inl ValueError
      | Some dt \<Rightarrow> (if valid_datetime dt then Inr dt else Inl ValueError))"

text \<open>\<^verbatim>\<open>'%0wd' % n\<close>: decimal digits, filled with zeros on the left up to the width.\<close>

definition zero_pad :: "nat \<Rightarrow> nat \<Rightarrow> string" where
  "zero_pad w n = replicate (w - length (str_of_nat n)) CHR ''0'' @ str_of_nat n"

definition strftime_entry :: "datetime \<Rightarrow> string" where
  "strftime_entry dt =
     zero_pad 4 (year dt) @ zero_pad 2 (month dt) @ zero_pad 2 (day dt) @ ''T''
     @ zero_pad 2 (hour dt) @ zero_pad 2 (minute dt) @ zero_pad 2 (second dt)"

text \<open>
  Lines 113 to 115 of the source on a string: \<^verbatim>\<open>created_at[:-5]\<close> is parsed,
  \<^verbatim>\<open>created_at[-5:]\<close> is appended to the reformatted timestamp as it is.
\<close>

definition entry_of_created :: "string \<Rightarrow> pyerr + string" where
  "entry_of_created created_at =
     (let timestamp = take (length created_at - 5) created_at;
          timezone = drop (length created_at - 5) created_at
      in then_py (strptime_created timestamp) (\<lambda>dt. Inr (strftime_entry dt @ timezone)))"

text \<open>A value that is not a string cannot be sliced, or its slice is refused by
  \<^verbatim>\<open>strptime\<close>.\<close>

fun entry_of_value :: "pyval \<Rightarrow> pyerr + pyval" where
  "entry_of_value (PyStr s) = then_py (entry_of_created s) (\<lambda>r. Inr (PyStr r))"
| "entry_of_value v = Inl TypeError"

definition get_entry :: "issue \<Rightarrow> pyerr + pyval" where
  "get_entry i =
     then_py (dict_item (foreign_record i) ''fields'') (\<lambda>fields.
     then_py (subscript fields ''created'') (\<lambda>created_at.
       entry_of_value created_at))"

subsection \<open>get_tags, get_annotations\<close>

text \<open>
  The loop of \<^verbatim>\<open>get_tags\<close>: each label is stored in the context under \<^verbatim>\<open>label\<close>, the
  template is rendered with the context, and the result is appended to the tags.
\<close>

fun tags_loop ::
  "(pydict \<Rightarrow> pyerr + string) \<Rightarrow> pydict \<Rightarrow> pyval list \<Rightarrow> pyval list \<Rightarrow> pyerr + pyval list"
where
  "tags_loop render context [] tags = Inr tags"
| "tags_loop render context (label # labels) tags =
     (case render (AList.update ''label'' label context) of
        Inl e \<Rightarrow> Inl e
      | Inr tag \<Rightarrow>
          tags_loop render (AList.update ''label'' label context) labels (tags @ [PyStr tag]))"

definition get_tags :: "runtime \<Rightarrow> issue \<Rightarrow> pyerr + pyval" where
  "get_tags R i =
     then_py (dict_item (origin i) ''import_labels_as_tags'') (\<lambda>enabled.
       if \<not> truthy enabled then Inr (PyList [])
       else
         then_py (dict_item (origin i) ''label_template'') (\<lambda>source.
         then_py (jinja_template R source) (\<lambda>label_template.
         then_py (get_method (dict_get (foreign_record i) ''fields'' (PyDict []))
                    ''labels'' (PyList [])) (\<lambda>labels.
         then_py (py_iter labels) (\<lambda>labels.
         then_py (tags_loop label_template (foreign_record i) labels []) (\<lambda>tags.
           Inr (PyList tags)))))))"

definition get_annotations :: "issue \<Rightarrow> pyval" where
  "get_annotations i = dict_get (extra i) ''annotations'' (PyList [])"

text \<open>
  What the theorem of C9 takes from the template engine, whose code is not part of the
  repository: the template \<^verbatim>\<open>{{label}}\<close> compiles, and rendered with a context whose
  \<^verbatim>\<open>label\<close> is a string it gives that string.
\<close>

definition renders_label :: "runtime \<Rightarrow> bool" where
  "renders_label R =
     (\<exists>render. jinja_template R (PyStr ''{{label}}'') = Inr render
       \<and> (\<forall>context label. map_of context ''label'' = Some (PyStr label)
             \<longrightarrow> render context = Inr label))"

subsection \<open>to_taskwarrior\<close>

definition to_taskwarrior :: "runtime \<Rightarrow> issue \<Rightarrow> pyerr + pydict" where
  "to_taskwarrior R i =
     then_py (get_project i) (\<lambda>project.
     then_py (get_priority R i) (\<lambda>priority.
     then_py (get_tags R i) (\<lambda>tags.
     then_py (get_entry i) (\<lambda>entry.
     then_py (get_url i) (\<lambda>url.
     then_py (dict_item (foreign_record i) ''key'') (\<lambda>key.
     then_py (get_method (dict_get (foreign_record i) ''fields'' (PyDict []))
                ''description'' PyNone) (\<lambda>description.
     then_py (get_summary i) (\<lambda>summary.
     then_py (get_estimate i) (\<lambda>estimate.
     then_py (get_fix_version i) (\<lambda>fix_version.
       Inr [(''project'', project),
            (''priority'', priority),
            (''annotations'', get_annotations i),
            (''tags'', tags),
            (''entry'', entry),
            (URL, url),
            (FOREIGN_ID, key),
            (DESCRIPTION, description),
            (SUMMARY, summary),
            (ESTIMATE, estimate),
            (FIX_VERSION, fix_version)]))))))))))"

section \<open>JiraService\<close>

text \<open>
  The service holds what \<^verbatim>\<open>__init__\<close> read from the configuration, the optional
  \<^verbatim>\<open>jira.version\<close> option as \<^verbatim>\<open>has_option\<close> and \<^verbatim>\<open>getint\<close> see it (absent, or the integer
  or exception \<^verbatim>\<open>getint\<close> gives), and the remote tracker: the answer to the configured
  query and the comments of each issue key. A search result has a \<^verbatim>\<open>key\<close> and the raw
  payload; a comment has its author's name and a body. The two formatting helpers of the
  base classes, whose code is not part of the sources, are parameters.
\<close>

record jira_case =
  case_key :: string
  case_raw :: pydict

record service =
  service_url :: string
  import_labels_as_tags :: bool
  label_template :: string
  base_origin :: pydict
  jira_version_option :: "(pyerr + int) option"
  search_issues :: "pyerr + jira_case list"
  jira_comments :: "string \<Rightarrow> pyerr + (string \<times> string) list"
  build_annotations :: "(string \<times> string) list \<Rightarrow> pyval \<Rightarrow> pyerr + pyval"
  get_processed_url :: "issue \<Rightarrow> pyval \<Rightarrow> pyerr + pyval"

definition get_service_metadata :: "service \<Rightarrow> pydict" where
  "get_service_metadata svc =
     [(''url'', PyStr (service_url svc)),
      (''import_labels_as_tags'', PyBool (import_labels_as_tags svc)),
      (''label_template'', PyStr (label_template svc))]"

text \<open>
  Modelled from the spec: \<^verbatim>\<open>IssueService.get_issue_for_record\<close> and \<^verbatim>\<open>Issue.update_extra\<close>
  belong to \<^verbatim>\<open>bugwarrior/services/__init__.py\<close>, which is not among the sources. The spec
  has the origin configuration shared by all issues of one adapter and the extra metadata
  supplied by the adapter alongside the payload: a fresh issue carries the raw payload, the
  service's origin (the base part updated with \<^verbatim>\<open>get_service_metadata\<close>) and no extra
  metadata, and \<^verbatim>\<open>update_extra\<close> updates the issue's extra dictionary with the given one.
\<close>

definition get_issue_for_record :: "service \<Rightarrow> pydict \<Rightarrow> issue" where
  "get_issue_for_record svc raw =
     \<lparr>foreign_record = raw,
      origin = dict_update (base_origin svc) (get_service_metadata svc),
      extra = []\<rparr>"

definition update_extra :: "issue \<Rightarrow> pydict \<Rightarrow> issue" where
  "update_extra i new = i\<lparr>extra := dict_update (extra i) new\<rparr>"

definition annotations :: "service \<Rightarrow> jira_case \<Rightarrow> issue \<Rightarrow> pyerr + pyval" where
  "annotations svc c issue_obj =
     then_py (jira_comments svc (case_key c)) (\<lambda>comments.
       if comments = [] then Inr (PyList [])
       else
         then_py (get_url issue_obj) (\<lambda>url.
         then_py (get_processed_url svc issue_obj url) (\<lambda>processed.
           build_annotations svc comments processed)))"

text \<open>
  \<^verbatim>\<open>issues\<close> is a generator. A run of it is what it yielded, the issue keys whose comments
  it requested from the tracker, in order, and the exception that ended it, if any.
\<close>

record run =
  yielded :: "issue list"
  comment_fetches :: "string list"
  raised :: "pyerr option"

fun issues_loop :: "service \<Rightarrow> int \<Rightarrow> jira_case list \<Rightarrow> run" where
  "issues_loop svc jira_version [] = \<lparr>yielded = [], comment_fetches = [], raised = None\<rparr>"
| "issues_loop svc jira_version (c # cases) =
     (let issue = get_issue_for_record svc (case_raw c);
          extra = [(''jira_version'', PyInt jira_version)]
      in
        if jira_version > 4 then
          (case annotations svc c issue of
             Inl e \<Rightarrow> \<lparr>yielded = [], comment_fetches = [case_key c], raised = Some e\<rparr>
           | Inr fetched \<Rightarrow>
               (let rest = issues_loop svc jira_version cases in
                  rest\<lparr>yielded :=
                         update_extra issue (AList.update ''annotations'' fetched extra)
                           # yielded rest,
                       comment_fetches := case_key c # comment_fetches rest\<rparr>))
        else
          (let rest = issues_loop svc jira_version cases in
             rest\<lparr>yielded := update_extra issue extra # yielded rest\<rparr>))"

definition issues :: "service \<Rightarrow> run" where
  "issues svc =
     (case search_issues svc of
        Inl e \<Rightarrow> \<lparr>yielded = [], comment_fetches = [], raised = Some e\<rparr>
      | Inr cases \<Rightarrow>
          (case jira_version_option svc of
             None \<Rightarrow> issues_loop svc 5 cases
           | Some (Inl e) \<Rightarrow> \<lparr>yielded = [], comment_fetches = [], raised = Some e\<rparr>
           | Some (Inr jira_version) \<Rightarrow> issues_loop svc jira_version cases))"

section \<open>Basic facts\<close>

lemma then_py_simps [simp]:
  "then_py (Inl e) f = Inl e"
  "then_py (Inr v) f = f v"
  by (simp_all add: then_py_def)

lemma then_py_eq_Inr:
  "then_py m f = Inr r \<longleftrightarrow> (\<exists>v. m = Inr v \<and> f v = Inr r)"
  by (cases m) simp_all

lemma except_py_simps [simp]:
  "except_py (Inr v) es h = Inr v"
  "except_py (Inl e) es h = (if e \<in> set es then h else Inl e)"
  by (simp_all add: except_py_def)

lemma dict_item_Some [simp]: "map_of d k = Some v \<Longrightarrow> dict_item d k = Inr v"
  by (simp add: dict_item_def)

lemma dict_item_None [simp]: "map_of d k = None \<Longrightarrow> dict_item d k = Inl KeyError"
  by (simp add: dict_item_def)

lemma dict_item_eq_Inr: "dict_item d k = Inr v \<longleftrightarrow> map_of d k = Some v"
  by (simp add: dict_item_def split: option.splits)

section \<open>The unique key\<close>

text \<open>
  C1. The unique key of a record is its \<^verbatim>\<open>jiraurl\<close> field, computed by \<^verbatim>\<open>get_url\<close>. For an
  origin whose \<^verbatim>\<open>url\<close> is a string and payloads whose \<^verbatim>\<open>key\<close> is a string, the key is
  the origin's url, \<^verbatim>\<open>/browse/\<close> and the payload's key, it depends on nothing else of the
  issue (the same payload gives the same key again), and under one origin two payloads
  have equal unique keys exactly when their \<^verbatim>\<open>key\<close> fields are equal.
\<close>

theorem unique_key_stable_and_injective:
  assumes "map_of (origin i1) ''url'' = Some (PyStr u)"
    and "map_of (origin i2) ''url'' = Some (PyStr u)"
    and "map_of (foreign_record i1) ''key'' = Some (PyStr k1)"
    and "map_of (foreign_record i2) ''key'' = Some (PyStr k2)"
  shows "get_url i1 = Inr (PyStr (u @ ''/browse/'' @ k1))
    \<and> get_url i2 = Inr (PyStr (u @ ''/browse/'' @ k2))
    \<and> (get_url i1 = get_url i2 \<longleftrightarrow> k1 = k2)"
  using assms by (simp add: get_url_def)

theorem unique_key_stable_and_injective_witness:
  "get_url \<lparr>foreign_record = [(''key'', PyStr ''PROJ-123'')],
            origin = [(''url'', PyStr ''https://jira.example.com'')], extra = []\<rparr>
     = Inr (PyStr ''https://jira.example.com/browse/PROJ-123'')
   \<and> get_url \<lparr>foreign_record = [(''key'', PyStr ''PROJ-124''), (''fields'', PyDict [])],
            origin = [(''url'', PyStr ''https://jira.example.com'')],
            extra = [(''jira_version'', PyInt 5)]\<rparr>
     = Inr (PyStr ''https://jira.example.com/browse/PROJ-124'')
   \<and> get_url \<lparr>foreign_record = [(''key'', PyStr ''PROJ-123'')],
            origin = [(''url'', PyStr ''https://jira.example.com'')], extra = []\<rparr>
     \<noteq> get_url \<lparr>foreign_record = [(''key'', PyStr ''PROJ-124''), (''fields'', PyDict [])],
            origin = [(''url'', PyStr ''https://jira.example.com'')],
            extra = [(''jira_version'', PyInt 5)]\<rparr>"
  using unique_key_stable_and_injective
    [of "\<lparr>foreign_record = [(''key'', PyStr ''PROJ-123'')],
            origin = [(''url'', PyStr ''https://jira.example.com'')], extra = []\<rparr>"
        "''https://jira.example.com''"
        "\<lparr>foreign_record = [(''key'', PyStr ''PROJ-124''), (''fields'', PyDict [])],
            origin = [(''url'', PyStr ''https://jira.example.com'')],
            extra = [(''jira_version'', PyInt 5)]\<rparr>"
        "''PROJ-123''" "''PROJ-124''"]
  by simp

section \<open>Priority\<close>

lemma PRIORITY_MAP_None [simp]: "map_of PRIORITY_MAP ''None'' = None"
  by (simp add: PRIORITY_MAP_def)

text \<open>
  C2. For a payload whose \<^verbatim>\<open>fields\<close> object has no \<^verbatim>\<open>priority\<close>, a null one, a bare string
  that is not a key of the priority table, or an object whose \<^verbatim>\<open>name\<close> is such a string,
  \<^verbatim>\<open>get_priority\<close> raises nothing and returns the origin's \<^verbatim>\<open>default_priority\<close>.
\<close>

theorem get_priority_unlisted_default:
  assumes "map_of (foreign_record i) ''fields'' = Some (PyDict f)"
    and "map_of (origin i) ''default_priority'' = Some dflt"
    and "map_of f ''priority'' = None
      \<or> map_of f ''priority'' = Some PyNone
      \<or> (\<exists>s. map_of f ''priority'' = Some (PyStr s) \<and> map_of PRIORITY_MAP s = None)
      \<or> (\<exists>d s. map_of f ''priority'' = Some (PyDict d) \<and> map_of d ''name'' = Some (PyStr s)
            \<and> map_of PRIORITY_MAP s = None)"
  shows "get_priority R i = Inr dflt"
  using assms by (auto simp add: get_priority_def dict_get_def)

theorem get_priority_unlisted_default_witness:
  "get_priority \<lparr>py_repr = (\<lambda>v. []), jinja_template = (\<lambda>src. Inl TemplateError)\<rparr>
     \<lparr>foreign_record = [(''key'', PyStr ''PROJ-1''),
        (''fields'', PyDict [(''priority'', PyDict [(''name'', PyStr ''Urgent'')])])],
      origin = [(''default_priority'', PyStr ''M'')], extra = []\<rparr>
     = Inr (PyStr ''M'')"
proof -
  have unlisted: "map_of PRIORITY_MAP ''Urgent'' = None"
    by (simp add: PRIORITY_MAP_def)
  show ?thesis
    using unlisted
    by (intro get_priority_unlisted_default
          [where f = "[(''priority'', PyDict [(''name'', PyStr ''Urgent'')])]"]) simp_all
qed

section \<open>Fix version\<close>

lemma get_fix_version_closed_form:
  "get_fix_version i =
     Inr (case map_of (foreign_record i) ''fields'' of
            Some (PyDict f) \<Rightarrow>
              (case map_of f ''fixVersions'' of
                 None \<Rightarrow> PyNone
               | Some (PyList (PyDict d # rest)) \<Rightarrow> dict_get d ''name'' PyNone
               | Some other \<Rightarrow> PyNone)
          | other \<Rightarrow> PyNone)"
proof (cases "map_of (foreign_record i) ''fields''")
  case None
  then show ?thesis by (simp add: get_fix_version_def)
next
  case (Some fields)
  show ?thesis
  proof (cases fields)
    case (PyDict f)
    show ?thesis
    proof (cases "map_of f ''fixVersions''")
      case None
      with Some PyDict show ?thesis
        by (simp add: get_fix_version_def dict_get_def)
    next
      case inner: (Some versions)
      have "except_py (then_py (item0 versions) (\<lambda>first. get_method first ''name'' PyNone))
              [IndexError, KeyError, AttributeError, TypeError] (Inr PyNone)
            = Inr (case versions of PyList (PyDict d # rest) \<Rightarrow> dict_get d ''name'' PyNone
                   | other \<Rightarrow> PyNone)"
      proof (cases versions)
        case (PyList xs)
        show ?thesis
        proof (cases xs)
          case Nil
          with PyList show ?thesis by simp
        next
          case (Cons x rest)
          with PyList show ?thesis by (cases x) simp_all
        qed
      next
        case (PyStr s)
        then show ?thesis by (cases s) simp_all
      qed simp_all
      with Some PyDict inner show ?thesis
        by (simp add: get_fix_version_def dict_get_def)
    qed
  qed (use Some in \<open>simp_all add: get_fix_version_def\<close>)
qed

text \<open>
  C5. \<^verbatim>\<open>get_fix_version\<close> never raises. It returns the \<^verbatim>\<open>name\<close> of the first entry of
  \<^verbatim>\<open>fields.fixVersions\<close> when that entry is an object with a name, and it returns null for
  an empty list, a missing \<^verbatim>\<open>fixVersions\<close> key, a null container, a first entry that is no
  object, and a \<^verbatim>\<open>fields\<close> that is missing or no object. A result other than null is always
  the name of the first entry.
\<close>

theorem get_fix_version_first_name_or_null:
  "(\<exists>v. get_fix_version i = Inr v)
   \<and> (map_of (foreign_record i) ''fields'' = Some (PyDict f)
        \<and> map_of f ''fixVersions'' = Some (PyList (PyDict d # rest))
        \<and> map_of d ''name'' = Some n
      \<longrightarrow> get_fix_version i = Inr n)
   \<and> (map_of (foreign_record i) ''fields'' = Some (PyDict f)
        \<and> (map_of f ''fixVersions'' = Some (PyList [])
           \<or> map_of f ''fixVersions'' = None
           \<or> map_of f ''fixVersions'' = Some PyNone
           \<or> (\<exists>x xs. map_of f ''fixVersions'' = Some (PyList (x # xs)) \<and> (\<forall>e. x \<noteq> PyDict e)))
      \<longrightarrow> get_fix_version i = Inr PyNone)
   \<and> (map_of (foreign_record i) ''fields'' = None
        \<or> (\<exists>x. map_of (foreign_record i) ''fields'' = Some x \<and> (\<forall>e. x \<noteq> PyDict e))
      \<longrightarrow> get_fix_version i = Inr PyNone)
   \<and> (get_fix_version i = Inr v \<and> v \<noteq> PyNone
      \<longrightarrow> (\<exists>g e xs. map_of (foreign_record i) ''fields'' = Some (PyDict g)
            \<and> map_of g ''fixVersions'' = Some (PyList (PyDict e # xs))
            \<and> map_of e ''name'' = Some v))"
proof (intro conjI impI)
  show "\<exists>v. get_fix_version i = Inr v"
    by (simp add: get_fix_version_closed_form)
next
  assume "map_of (foreign_record i) ''fields'' = Some (PyDict f)
    \<and> map_of f ''fixVersions'' = Some (PyList (PyDict d # rest)) \<and> map_of d ''name'' = Some n"
  then show "get_fix_version i = Inr n"
    by (simp add: get_fix_version_closed_form dict_get_def)
next
  assume "map_of (foreign_record i) ''fields'' = Some (PyDict f)
    \<and> (map_of f ''fixVersions'' = Some (PyList [])
       \<or> map_of f ''fixVersions'' = None
       \<or> map_of f ''fixVersions'' = Some PyNone
       \<or> (\<exists>x xs. map_of f ''fixVersions'' = Some (PyList (x # xs)) \<and> (\<forall>e. x \<noteq> PyDict e)))"
  then show "get_fix_version i = Inr PyNone"
    by (auto simp add: get_fix_version_closed_form split: pyval.splits)
next
  assume "map_of (foreign_record i) ''fields'' = None
    \<or> (\<exists>x. map_of (foreign_record i) ''fields'' = Some x \<and> (\<forall>e. x \<noteq> PyDict e))"
  then show "get_fix_version i = Inr PyNone"
    by (auto simp add: get_fix_version_closed_form split: pyval.splits)
next
  assume "get_fix_version i = Inr v \<and> v \<noteq> PyNone"
  then show "\<exists>g e xs. map_of (foreign_record i) ''fields'' = Some (PyDict g)
      \<and> map_of g ''fixVersions'' = Some (PyList (PyDict e # xs)) \<and> map_of e ''name'' = Some v"
    by (auto simp add: get_fix_version_closed_form dict_get_def
          split: option.splits pyval.splits list.splits)
qed

theorem get_fix_version_first_name_or_null_witness:
  "get_fix_version \<lparr>foreign_record = [(''fields'', PyDict [(''fixVersions'',
       PyList [PyDict [(''id'', PyStr ''10''), (''name'', PyStr ''1.2.3'')],
               PyDict [(''name'', PyStr ''2.0'')]])])],
     origin = [], extra = []\<rparr> = Inr (PyStr ''1.2.3'')
   \<and> get_fix_version \<lparr>foreign_record = [(''fields'', PyDict [(''fixVersions'', PyList [])])],
     origin = [], extra = []\<rparr> = Inr PyNone
   \<and> get_fix_version \<lparr>foreign_record = [(''key'', PyStr ''PROJ-1'')],
     origin = [], extra = []\<rparr> = Inr PyNone"
  using get_fix_version_first_name_or_null
    [of "\<lparr>foreign_record = [(''fields'', PyDict [(''fixVersions'',
           PyList [PyDict [(''id'', PyStr ''10''), (''name'', PyStr ''1.2.3'')],
                   PyDict [(''name'', PyStr ''2.0'')]])])], origin = [], extra = []\<rparr>"
        "[(''fixVersions'', PyList [PyDict [(''id'', PyStr ''10''), (''name'', PyStr ''1.2.3'')],
                   PyDict [(''name'', PyStr ''2.0'')]])]"
        "[(''id'', PyStr ''10''), (''name'', PyStr ''1.2.3'')]"
        "[PyDict [(''name'', PyStr ''2.0'')]]" "PyStr ''1.2.3''"]
    get_fix_version_first_name_or_null
    [of "\<lparr>foreign_record = [(''fields'', PyDict [(''fixVersions'', PyList [])])],
          origin = [], extra = []\<rparr>" "[(''fixVersions'', PyList [])]"]
    get_fix_version_first_name_or_null
    [of "\<lparr>foreign_record = [(''key'', PyStr ''PROJ-1'')], origin = [], extra = []\<rparr>"]
  by simp

section \<open>Estimate\<close>

lemma py_truediv_60_shape:
  "(case py_truediv v 60 of
      Inl e \<Rightarrow> e = TypeError \<or> e = OverflowError
    | Inr r \<Rightarrow> (case r of PyFloat x \<Rightarrow> True | other \<Rightarrow> False))"
  by (cases v) simp_all

lemma get_estimate_current_shape:
  assumes "\<not> py_eq_int (dict_get (extra i) ''jira_version'' PyNone) 4"
  shows "(case get_estimate i of
            Inl e \<Rightarrow> e = OverflowError
          | Inr r \<Rightarrow> (case r of PyNone \<Rightarrow> True | PyFloat x \<Rightarrow> True | other \<Rightarrow> False))"
proof (cases "map_of (foreign_record i) ''fields''")
  case None
  with assms show ?thesis by (simp add: get_estimate_def)
next
  case (Some fields)
  show ?thesis
  proof (cases "subscript fields ''timeestimate''")
    case (Inl e)
    then have "e = TypeError \<or> e = KeyError"
      by (cases fields) (simp_all add: dict_item_def split: option.splits)
    with assms Some Inl show ?thesis by (auto simp add: get_estimate_def)
  next
    case (Inr v)
    show ?thesis
    proof (cases "py_truediv v 60")
      case first_error: (Inl e)
      with py_truediv_60_shape [of v] assms Some Inr show ?thesis
        by (auto simp add: get_estimate_def)
    next
      case minutes: (Inr m)
      with py_truediv_60_shape [of v] py_truediv_60_shape [of m] assms Some Inr show ?thesis
        by (auto simp add: get_estimate_def split: sum.splits pyval.splits)
    qed
  qed
qed

text \<open>
  C4, the part the code does not keep. Under the legacy schema (version 4) the lookup
  \<^verbatim>\<open>self.record['fields']['timeestimate']['value']\<close> is returned before the
  \<^verbatim>\<open>try\<close> block is entered, so a payload without \<^verbatim>\<open>timeestimate\<close> raises \<^verbatim>\<open>KeyError\<close> and a
  bare number raises \<^verbatim>\<open>TypeError\<close>, where the current schema returns null for the
  payload without the key.
\<close>

theorem get_estimate_legacy_raises:
  "get_estimate \<lparr>foreign_record = [(''key'', PyStr ''PROJ-1''), (''fields'', PyDict [])],
                  origin = [], extra = [(''jira_version'', PyInt 4)]\<rparr> = Inl KeyError
   \<and> get_estimate \<lparr>foreign_record = [(''key'', PyStr ''PROJ-1''),
                    (''fields'', PyDict [(''timeestimate'', PyInt 18000)])],
                  origin = [], extra = [(''jira_version'', PyInt 4)]\<rparr> = Inl TypeError
   \<and> get_estimate \<lparr>foreign_record = [(''key'', PyStr ''PROJ-1''), (''fields'', PyDict [])],
                  origin = [], extra = [(''jira_version'', PyInt 5)]\<rparr> = Inr PyNone"
  by (simp add: get_estimate_def dict_get_def)

text \<open>The parts of C4 that hold: the two worked values, and the current schema's fallback.\<close>

lemma get_estimate_legacy_value:
  "get_estimate \<lparr>foreign_record = [(''fields'',
       PyDict [(''timeestimate'', PyDict [(''value'', PyInt 5)])])],
     origin = [], extra = [(''jira_version'', PyInt 4)]\<rparr> = Inr (PyInt 5)"
  by (simp add: get_estimate_def dict_get_def)

lemma get_estimate_current_hours:
  "get_estimate \<lparr>foreign_record = [(''fields'', PyDict [(''timeestimate'', PyInt 18000)])],
     origin = [], extra = [(''jira_version'', PyInt 5)]\<rparr> = Inr (PyFloat 5)"
  by (simp add: get_estimate_def dict_get_def)

lemma get_estimate_current_absorbs:
  assumes "\<not> py_eq_int (dict_get (extra i) ''jira_version'' PyNone) 4"
  shows "get_estimate i \<noteq> Inl KeyError \<and> get_estimate i \<noteq> Inl TypeError
    \<and> (map_of (foreign_record i) ''fields'' = None \<longrightarrow> get_estimate i = Inr PyNone)
    \<and> (map_of (foreign_record i) ''fields'' = Some (PyDict f)
          \<and> map_of f ''timeestimate'' = None \<longrightarrow> get_estimate i = Inr PyNone)
    \<and> (map_of (foreign_record i) ''fields'' = Some (PyDict f)
          \<and> map_of f ''timeestimate'' = Some PyNone \<longrightarrow> get_estimate i = Inr PyNone)
    \<and> (map_of (foreign_record i) ''fields'' = Some (PyDict f)
          \<and> map_of f ''timeestimate'' = Some (PyStr t) \<longrightarrow> get_estimate i = Inr PyNone)"
proof -
  have "get_estimate i \<noteq> Inl KeyError \<and> get_estimate i \<noteq> Inl TypeError"
    using get_estimate_current_shape [OF assms] by (auto split: sum.splits)
  moreover have "map_of (foreign_record i) ''fields'' = None \<longrightarrow> get_estimate i = Inr PyNone"
    using assms by (simp add: get_estimate_def)
  moreover have "map_of (foreign_record i) ''fields'' = Some (PyDict f)
      \<and> map_of f ''timeestimate'' = None \<longrightarrow> get_estimate i = Inr PyNone"
    using assms by (simp add: get_estimate_def)
  moreover have "map_of (foreign_record i) ''fields'' = Some (PyDict f)
      \<and> map_of f ''timeestimate'' = Some PyNone \<longrightarrow> get_estimate i = Inr PyNone"
    using assms by (simp add: get_estimate_def)
  moreover have "map_of (foreign_record i) ''fields'' = Some (PyDict f)
      \<and> map_of f ''timeestimate'' = Some (PyStr t) \<longrightarrow> get_estimate i = Inr PyNone"
    using assms by (simp add: get_estimate_def)
  ultimately show ?thesis by blast
qed

section \<open>Entry date\<close>

lemma digit_char_is_digit: "n < 10 \<Longrightarrow> is_digit (digit_char n)"
  unfolding digit_char_def is_digit_def by (rule nth_mem) simp

lemma str_of_nat_digits: "c \<in> set (str_of_nat n) \<Longrightarrow> is_digit c"
proof (induction n arbitrary: c rule: str_of_nat.induct)
  case (1 n)
  show ?case
  proof (cases "n < 10")
    case True
    with "1.prems" show ?thesis
      by (subst (asm) str_of_nat.simps) (simp add: digit_char_is_digit)
  next
    case False
    with "1.prems" have "c \<in> set (str_of_nat (n div 10)) \<or> c = digit_char (n mod 10)"
      by (subst (asm) str_of_nat.simps) auto
    with False "1.IH" show ?thesis
      by (auto simp add: digit_char_is_digit)
  qed
qed

lemma zero_pad_digits: "c \<in> set (zero_pad w n) \<Longrightarrow> is_digit c"
  by (auto simp add: zero_pad_def is_digit_def dest: str_of_nat_digits)

lemma zero_pad_length: "w \<le> length (zero_pad w n)"
  by (simp add: zero_pad_def)

lemma strftime_entry_digit_run: "8 \<le> length (fst (digit_run (strftime_entry dt)))"
proof -
  define date where "date = zero_pad 4 (year dt) @ zero_pad 2 (month dt) @ zero_pad 2 (day dt)"
  define time where
    "time = ''T'' @ zero_pad 2 (hour dt) @ zero_pad 2 (minute dt) @ zero_pad 2 (second dt)"
  have split: "strftime_entry dt = date @ time"
    by (simp add: strftime_entry_def date_def time_def)
  have "is_digit c" if "c \<in> set date" for c
    using that by (auto simp add: date_def dest: zero_pad_digits)
  then have "takeWhile is_digit (date @ time) = date @ takeWhile is_digit time"
    by (simp add: takeWhile_append2)
  moreover have "8 \<le> length date"
    using zero_pad_length [of 4 "year dt"] zero_pad_length [of 2 "month dt"]
      zero_pad_length [of 2 "day dt"]
    by (simp add: date_def)
  ultimately show ?thesis
    by (simp add: split digit_run_def)
qed

lemma strptime_created_strftime_entry: "strptime_created (strftime_entry dt) = Inl ValueError"
proof -
  have "field 4 4 0 9999 (strftime_entry dt) = None"
    using strftime_entry_digit_run [of dt] by (simp add: field_def Let_def)
  then show ?thesis
    by (simp add: strptime_created_def parse_created_def)
qed

lemma strptime_created_empty: "strptime_created [] = Inl ValueError"
  by (simp add: strptime_created_def parse_created_def field_def digit_run_def)

lemma entry_of_created_Inr:
  assumes "entry_of_created x = Inr y"
  shows "\<exists>dt tz. strptime_created (take (length x - 5) x) = Inr dt \<and> length tz = 5
    \<and> tz = drop (length x - 5) x \<and> y = strftime_entry dt @ tz"
proof -
  have long: "5 \<le> length x"
  proof (rule ccontr)
    assume "\<not> 5 \<le> length x"
    then have "take (length x - 5) x = []" by simp
    with assms show False
      by (simp add: entry_of_created_def Let_def strptime_created_empty)
  qed
  from assms obtain dt where "strptime_created (take (length x - 5) x) = Inr dt"
    and "y = strftime_entry dt @ drop (length x - 5) x"
    by (auto simp add: entry_of_created_def Let_def then_py_eq_Inr)
  with long show ?thesis by simp
qed

lemma entry_of_created_split:
  assumes "length tz = 5"
  shows "entry_of_created (p @ tz)
    = then_py (strptime_created p) (\<lambda>dt. Inr (strftime_entry dt @ tz))"
  using assms by (simp add: entry_of_created_def)

text \<open>
  C6. When the \<^verbatim>\<open>created\<close> string is a prefix that \<^verbatim>\<open>strptime\<close> accepts followed by five
  more characters, \<^verbatim>\<open>get_entry\<close> returns the parsed date and time in the form
  \<^verbatim>\<open>%Y%m%dT%H%M%S\<close> followed by those five characters unchanged: the result ends in the
  same five characters, the date and time written are the parsed ones whatever the offset
  says (the same prefix under another offset gives the same date and time), and the
  microseconds play no part in the result.
\<close>

theorem get_entry_keeps_offset:
  assumes "map_of (foreign_record i) ''fields'' = Some (PyDict f)"
    and "map_of f ''created'' = Some (PyStr (p @ tz))"
    and "length tz = 5"
    and "strptime_created p = Inr dt"
  shows "get_entry i = Inr (PyStr (strftime_entry dt @ tz))
    \<and> drop (length (strftime_entry dt @ tz) - 5) (strftime_entry dt @ tz) = tz
    \<and> (\<forall>tz'. length tz' = 5 \<longrightarrow> entry_of_created (p @ tz') = Inr (strftime_entry dt @ tz'))
    \<and> (\<forall>us. strftime_entry (dt\<lparr>microsecond := us\<rparr>) = strftime_entry dt)"
proof (intro conjI allI impI)
  show "get_entry i = Inr (PyStr (strftime_entry dt @ tz))"
    using assms by (simp add: get_entry_def entry_of_created_split)
  show "drop (length (strftime_entry dt @ tz) - 5) (strftime_entry dt @ tz) = tz"
    using assms(3) by simp
  show "entry_of_created (p @ tz') = Inr (strftime_entry dt @ tz')" if "length tz' = 5" for tz'
    using that assms(4) by (simp add: entry_of_created_split)
  show "strftime_entry (dt\<lparr>microsecond := us\<rparr>) = strftime_entry dt" for us
    by (simp add: strftime_entry_def)
qed

text \<open>Evaluation of the parser and the formatter on a given string, step by step.\<close>

lemma bind_weak_cong: "m = m' \<Longrightarrow> Option.bind m f = Option.bind m' f"
  by simp

lemma then_py_weak_cong: "m = m' \<Longrightarrow> then_py m f = then_py m' f"
  by simp

lemma replicate_numeral_unfold: "replicate (numeral k) x = x # replicate (pred_numeral k) x"
  by (simp add: numeral_eq_Suc)

lemmas entry_eval =
  entry_of_created_def strptime_created_def parse_created_def field_def literal_def
  fraction_def day_field_def digit_run_def is_digit_def nat_of_digits_def digit_val_def
  valid_datetime_def days_in_month_def is_leap_def strftime_entry_def zero_pad_def
  str_of_nat.simps digit_char_def replicate_numeral_unfold

theorem get_entry_keeps_offset_witness:
  "get_entry \<lparr>foreign_record = [(''key'', PyStr ''PROJ-1''),
       (''fields'', PyDict [(''created'', PyStr ''2016-06-06T13:07:08.123+0200'')])],
     origin = [], extra = []\<rparr> = Inr (PyStr ''20160606T130708+0200'')"
proof -
  have parsed: "strptime_created ''2016-06-06T13:07:08.123''
      = Inr \<lparr>year = 2016, month = 6, day = 6, hour = 13, minute = 7, second = 8,
             microsecond = 123000\<rparr>"
    by (simp add: entry_eval cong: bind_weak_cong)
  have formatted: "strftime_entry \<lparr>year = 2016, month = 6, day = 6, hour = 13, minute = 7,
      second = 8, microsecond = 123000\<rparr> = ''20160606T130708''"
    by (simp add: entry_eval)
  have "get_entry \<lparr>foreign_record = [(''key'', PyStr ''PROJ-1''),
       (''fields'', PyDict [(''created'', PyStr (''2016-06-06T13:07:08.123'' @ ''+0200''))])],
     origin = [], extra = []\<rparr>
     = Inr (PyStr (strftime_entry \<lparr>year = 2016, month = 6, day = 6, hour = 13, minute = 7,
         second = 8, microsecond = 123000\<rparr> @ ''+0200''))"
    using get_entry_keeps_offset
      [where f = "[(''created'', PyStr (''2016-06-06T13:07:08.123'' @ ''+0200''))]"
         and p = "''2016-06-06T13:07:08.123''" and tz = "''+0200''", OF _ _ _ parsed]
    by simp
  then show ?thesis
    by (simp add: formatted)
qed

text \<open>
  C7 as stated fails: the result of \<^verbatim>\<open>get_entry\<close> is in the compact form, which the
  parser of \<^verbatim>\<open>get_entry\<close> refuses, so the second application raises \<^verbatim>\<open>ValueError\<close>
  instead of returning the first result again.
\<close>

theorem get_entry_not_idempotent:
  "get_entry \<lparr>foreign_record = [(''fields'',
       PyDict [(''created'', PyStr ''2016-01-01T12:00:00.000+0000'')])],
     origin = [], extra = []\<rparr> = Inr (PyStr ''20160101T120000+0000'')
   \<and> get_entry \<lparr>foreign_record = [(''fields'',
       PyDict [(''created'', PyStr ''20160101T120000+0000'')])],
     origin = [], extra = []\<rparr> = Inl ValueError"
proof -
  have first: "entry_of_created ''2016-01-01T12:00:00.000+0000'' = Inr ''20160101T120000+0000''"
    by (simp add: entry_eval cong: bind_weak_cong then_py_weak_cong)
  have second: "entry_of_created ''20160101T120000+0000'' = Inl ValueError"
    by (simp add: entry_eval cong: bind_weak_cong then_py_weak_cong)
  show ?thesis
    by (simp add: get_entry_def first second)
qed

text \<open>
  C7 as the code has it: \<^verbatim>\<open>get_entry\<close> converts from the tracker's timestamp form to the
  compact form, and the compact form is not an input of the conversion. Whenever
  \<^verbatim>\<open>get_entry\<close> returns a value, \<^verbatim>\<open>get_entry\<close> on a payload whose \<^verbatim>\<open>created\<close> field is that
  value raises \<^verbatim>\<open>ValueError\<close>.
\<close>

theorem get_entry_output_refused:
  assumes "get_entry i = Inr v"
    and "map_of (foreign_record j) ''fields'' = Some (PyDict g)"
    and "map_of g ''created'' = Some v"
  shows "get_entry j = Inl ValueError"
proof -
  from assms(1) obtain created where "entry_of_value created = Inr v"
    by (auto simp add: get_entry_def then_py_eq_Inr)
  then obtain x y where y: "entry_of_created x = Inr y" and v: "v = PyStr y"
    by (cases created) (auto simp add: then_py_eq_Inr)
  from entry_of_created_Inr [OF y] obtain dt tz where
    "length tz = 5" and "y = strftime_entry dt @ tz"
    by blast
  then have "entry_of_created y = Inl ValueError"
    by (simp add: entry_of_created_split strptime_created_strftime_entry)
  with assms(2,3) v show ?thesis
    by (simp add: get_entry_def)
qed

theorem get_entry_output_refused_witness:
  "get_entry \<lparr>foreign_record = [(''fields'',
       PyDict [(''created'', PyStr ''20160606T130708+0200'')])],
     origin = [], extra = []\<rparr> = Inl ValueError"
proof -
  have first: "entry_of_created ''2016-06-06T13:07:08.123+0200'' = Inr ''20160606T130708+0200''"
    by (simp add: entry_eval cong: bind_weak_cong then_py_weak_cong)
  have "get_entry \<lparr>foreign_record = [(''fields'',
       PyDict [(''created'', PyStr ''2016-06-06T13:07:08.123+0200'')])],
     origin = [], extra = []\<rparr> = Inr (PyStr ''20160606T130708+0200'')"
    by (simp add: get_entry_def first)
  from get_entry_output_refused
    [OF this, where g = "[(''created'', PyStr ''20160606T130708+0200'')]"
       and j = "\<lparr>foreign_record = [(''fields'',
         PyDict [(''created'', PyStr ''20160606T130708+0200'')])], origin = [], extra = []\<rparr>"]
  show ?thesis
    by simp
qed

section \<open>Tags\<close>

text \<open>
  C8. When the origin's \<^verbatim>\<open>import_labels_as_tags\<close> is false (any value whose truth value is
  false), \<^verbatim>\<open>get_tags\<close> returns the empty list, whatever the payload, its labels and the
  template are; the template is not even compiled.
\<close>

theorem get_tags_disabled:
  assumes "map_of (origin i) ''import_labels_as_tags'' = Some enabled"
    and "\<not> truthy enabled"
  shows "get_tags R i = Inr (PyList [])"
  using assms by (simp add: get_tags_def)

theorem get_tags_disabled_witness:
  "get_tags \<lparr>py_repr = (\<lambda>v. []), jinja_template = (\<lambda>source. Inl TemplateError)\<rparr>
     \<lparr>foreign_record = [(''key'', PyStr ''PROJ-1''),
        (''fields'', PyDict [(''labels'', PyList [PyStr ''feature'', PyStr ''bug''])])],
      origin = [(''import_labels_as_tags'', PyBool False),
                (''label_template'', PyStr ''{{label}}'')],
      extra = []\<rparr> = Inr (PyList [])"
  by (rule get_tags_disabled [where enabled = "PyBool False"]) simp_all

lemma tags_loop_renders_each:
  assumes "tags_loop render ctx labels tags = Inr result"
  shows "\<exists>rendered. result = tags @ map PyStr rendered \<and> length rendered = length labels
    \<and> (\<forall>k < length labels.
          render (AList.update ''label'' (labels ! k) ctx) = Inr (rendered ! k))"
  using assms
proof (induction labels arbitrary: ctx tags)
  case Nil
  then show ?case by simp
next
  case (Cons label labels)
  from Cons.prems obtain tag where
    tag: "render (AList.update ''label'' label ctx) = Inr tag"
    and rest: "tags_loop render (AList.update ''label'' label ctx) labels
                 (tags @ [PyStr tag]) = Inr result"
    by (auto split: sum.splits)
  from Cons.IH [OF rest] obtain rendered where
    result: "result = (tags @ [PyStr tag]) @ map PyStr rendered"
    and len: "length rendered = length labels"
    and each: "\<forall>k < length labels.
        render (AList.update ''label'' (labels ! k) (AList.update ''label'' label ctx))
          = Inr (rendered ! k)"
    by blast
  have "result = tags @ map PyStr (tag # rendered)"
    using result by simp
  moreover have "length (tag # rendered) = length (label # labels)"
    using len by simp
  moreover have "render (AList.update ''label'' ((label # labels) ! k) ctx)
      = Inr ((tag # rendered) ! k)" if "k < length (label # labels)" for k
  proof (cases k)
    case 0
    with tag show ?thesis by simp
  next
    case (Suc m)
    with that each show ?thesis by simp
  qed
  ultimately show ?case by blast
qed

lemma tags_loop_identity:
  assumes "\<And>ctx label. map_of ctx ''label'' = Some (PyStr label)
      \<Longrightarrow> render ctx = Inr label"
  shows "tags_loop render ctx (map PyStr labels) tags = Inr (tags @ map PyStr labels)"
proof (induction labels arbitrary: ctx tags)
  case Nil
  show ?case by simp
next
  case (Cons label labels)
  have "render (AList.update ''label'' (PyStr label) ctx) = Inr label"
    by (rule assms) (simp add: update_conv')
  then show ?case
    by (simp add: Cons.IH)
qed

text \<open>
  C9. With \<^verbatim>\<open>import_labels_as_tags\<close> true and a payload whose \<^verbatim>\<open>fields.labels\<close> is a list:
  under the template \<^verbatim>\<open>{{label}}\<close> and string labels, \<^verbatim>\<open>get_tags\<close> returns exactly the list
  of labels; and under any template, whenever \<^verbatim>\<open>get_tags\<close> returns, the result has one
  entry per label, in the order of the labels, each entry being the template rendered with
  the payload as context and \<^verbatim>\<open>label\<close> set to that label.
\<close>

theorem get_tags_one_tag_per_label:
  assumes "map_of (origin i) ''import_labels_as_tags'' = Some enabled"
    and "truthy enabled"
    and "map_of (origin i) ''label_template'' = Some source"
    and "map_of (foreign_record i) ''fields'' = Some (PyDict f)"
    and "map_of f ''labels'' = Some (PyList labels)"
  shows "(source = PyStr ''{{label}}'' \<and> renders_label R \<and> labels = map PyStr names
          \<longrightarrow> get_tags R i = Inr (PyList (map PyStr names)))
    \<and> (get_tags R i = Inr tags
          \<longrightarrow> (\<exists>render rendered. jinja_template R source = Inr render
                \<and> tags = PyList (map PyStr rendered)
                \<and> length rendered = length labels
                \<and> (\<forall>k < length labels.
                      render (AList.update ''label'' (labels ! k) (foreign_record i))
                        = Inr (rendered ! k))))"
proof (intro conjI impI)
  assume identity: "source = PyStr ''{{label}}'' \<and> renders_label R \<and> labels = map PyStr names"
  then obtain render where
    compiled: "jinja_template R (PyStr ''{{label}}'') = Inr render"
    and renders: "\<And>context label. map_of context ''label'' = Some (PyStr label)
        \<Longrightarrow> render context = Inr label"
    by (auto simp add: renders_label_def)
  have "tags_loop render (foreign_record i) (map PyStr names) [] = Inr (map PyStr names)"
    using tags_loop_identity [of render "foreign_record i" names "[]"] renders by simp
  with assms identity compiled show "get_tags R i = Inr (PyList (map PyStr names))"
    by (simp add: get_tags_def dict_get_def)
next
  assume "get_tags R i = Inr tags"
  with assms obtain render result where
    compiled: "jinja_template R source = Inr render"
    and loop: "tags_loop render (foreign_record i) labels [] = Inr result"
    and tags: "tags = PyList result"
    by (auto simp add: get_tags_def dict_get_def then_py_eq_Inr)
  from tags_loop_renders_each [OF loop] tags compiled
  show "\<exists>render rendered. jinja_template R source = Inr render
      \<and> tags = PyList (map PyStr rendered) \<and> length rendered = length labels
      \<and> (\<forall>k < length labels.
            render (AList.update ''label'' (labels ! k) (foreign_record i))
              = Inr (rendered ! k))"
    by auto
qed

theorem get_tags_one_tag_per_label_witness:
  "get_tags
     \<lparr>py_repr = (\<lambda>v. []),
      jinja_template = (\<lambda>source.
        if source = PyStr ''{{label}}''
        then Inr (\<lambda>context. case map_of context ''label'' of
                     Some (PyStr label) \<Rightarrow> Inr label | other \<Rightarrow> Inl TemplateError)
        else Inl TemplateError)\<rparr>
     \<lparr>foreign_record = [(''key'', PyStr ''PROJ-1''),
        (''fields'', PyDict [(''labels'', PyList [PyStr ''feature'', PyStr ''bug''])])],
      origin = [(''import_labels_as_tags'', PyBool True),
                (''label_template'', PyStr ''{{label}}'')],
      extra = []\<rparr> = Inr (PyList [PyStr ''feature'', PyStr ''bug''])"
proof -
  define R where "R =
     \<lparr>py_repr = (\<lambda>v. []),
      jinja_template = (\<lambda>source.
        if source = PyStr ''{{label}}''
        then Inr (\<lambda>context. case map_of context ''label'' of
                     Some (PyStr label) \<Rightarrow> Inr label | other \<Rightarrow> Inl TemplateError)
        else Inl TemplateError)\<rparr>"
  have engine: "renders_label R"
    by (simp add: renders_label_def R_def)
  show ?thesis
    using engine get_tags_one_tag_per_label
      [where R = R and enabled = "PyBool True" and source = "PyStr ''{{label}}''"
         and f = "[(''labels'', PyList [PyStr ''feature'', PyStr ''bug''])]"
         and labels = "[PyStr ''feature'', PyStr ''bug'']" and names = "[''feature'', ''bug'']"
         and i = "\<lparr>foreign_record = [(''key'', PyStr ''PROJ-1''),
             (''fields'', PyDict [(''labels'', PyList [PyStr ''feature'', PyStr ''bug''])])],
           origin = [(''import_labels_as_tags'', PyBool True),
                     (''label_template'', PyStr ''{{label}}'')],
           extra = []\<rparr>"]
    by (simp add: R_def)
qed

section \<open>The record\<close>

lemma to_taskwarrior_Inr:
  assumes "to_taskwarrior R i = Inr d"
  shows "\<exists>project priority tags entry url key description summary estimate fix_version.
    get_project i = Inr project \<and> get_priority R i = Inr priority \<and> get_tags R i = Inr tags
    \<and> get_entry i = Inr entry \<and> get_url i = Inr url
    \<and> dict_item (foreign_record i) ''key'' = Inr key
    \<and> get_method (dict_get (foreign_record i) ''fields'' (PyDict [])) ''description'' PyNone
        = Inr description
    \<and> get_summary i = Inr summary \<and> get_estimate i = Inr estimate
    \<and> get_fix_version i = Inr fix_version
    \<and> d = [(''project'', project), (''priority'', priority),
           (''annotations'', get_annotations i), (''tags'', tags), (''entry'', entry),
           (''jiraurl'', url), (''jiraid'', key), (''jiradescription'', description),
           (''jirasummary'', summary), (''jiraestimate'', estimate),
           (''jirafixversion'', fix_version)]"
  using assms
  unfolding to_taskwarrior_def then_py_eq_Inr URL_def FOREIGN_ID_def DESCRIPTION_def
    SUMMARY_def ESTIMATE_def FIX_VERSION_def
  by (elim exE conjE) (simp only: sum.inject, blast)

text \<open>
  C3. Whenever \<^verbatim>\<open>to_taskwarrior\<close> returns, the record has exactly the eleven keys
  \<^verbatim>\<open>project\<close>, \<^verbatim>\<open>priority\<close>, \<^verbatim>\<open>annotations\<close>, \<^verbatim>\<open>tags\<close>, \<^verbatim>\<open>entry\<close>, \<^verbatim>\<open>jiraurl\<close>, \<^verbatim>\<open>jiraid\<close>,
  \<^verbatim>\<open>jiradescription\<close>, \<^verbatim>\<open>jirasummary\<close>, \<^verbatim>\<open>jiraestimate\<close> and \<^verbatim>\<open>jirafixversion\<close>, each once.
  Missing source data is a default under its key: no \<^verbatim>\<open>annotations\<close> in the extra metadata
  gives the empty list, and a payload without \<^verbatim>\<open>description\<close>, without \<^verbatim>\<open>fixVersions\<close> or
  (outside schema version 4) without \<^verbatim>\<open>timeestimate\<close> gives null under the respective key.
\<close>

theorem to_taskwarrior_fixed_keys:
  assumes "to_taskwarrior R i = Inr d"
  shows "map fst d = [''project'', ''priority'', ''annotations'', ''tags'', ''entry'',
           ''jiraurl'', ''jiraid'', ''jiradescription'', ''jirasummary'', ''jiraestimate'',
           ''jirafixversion'']
    \<and> distinct (map fst d)
    \<and> (map_of (extra i) ''annotations'' = None \<longrightarrow> map_of d ''annotations'' = Some (PyList []))
    \<and> (\<exists>f. map_of (foreign_record i) ''fields'' = Some (PyDict f)
          \<and> (map_of f ''description'' = None \<longrightarrow> map_of d ''jiradescription'' = Some PyNone)
          \<and> (map_of f ''fixVersions'' = None \<longrightarrow> map_of d ''jirafixversion'' = Some PyNone)
          \<and> (map_of f ''timeestimate'' = None
                \<and> \<not> py_eq_int (dict_get (extra i) ''jira_version'' PyNone) 4
              \<longrightarrow> map_of d ''jiraestimate'' = Some PyNone))"
proof -
  from to_taskwarrior_Inr [OF assms] obtain project priority tags entry url key description
    summary estimate fix_version
    where priority: "get_priority R i = Inr priority"
      and description: "get_method (dict_get (foreign_record i) ''fields'' (PyDict []))
          ''description'' PyNone = Inr description"
      and estimate: "get_estimate i = Inr estimate"
      and fix_version: "get_fix_version i = Inr fix_version"
      and d: "d = [(''project'', project), (''priority'', priority),
           (''annotations'', get_annotations i), (''tags'', tags), (''entry'', entry),
           (''jiraurl'', url), (''jiraid'', key), (''jiradescription'', description),
           (''jirasummary'', summary), (''jiraestimate'', estimate),
           (''jirafixversion'', fix_version)]"
    by blast
  from priority obtain fields where
    fields: "map_of (foreign_record i) ''fields'' = Some fields"
    and "get_method fields ''priority'' PyNone \<noteq> Inl AttributeError"
    by (auto simp add: get_priority_def then_py_eq_Inr dict_item_eq_Inr)
  then obtain f where f: "fields = PyDict f"
    by (cases fields) simp_all
  have keys: "map fst d = [''project'', ''priority'', ''annotations'', ''tags'', ''entry'',
      ''jiraurl'', ''jiraid'', ''jiradescription'', ''jirasummary'', ''jiraestimate'',
      ''jirafixversion'']"
    by (simp add: d)
  have unique: "distinct (map fst d)"
    by (simp add: keys)
  have no_annotations: "map_of (extra i) ''annotations'' = None
      \<longrightarrow> map_of d ''annotations'' = Some (PyList [])"
    by (simp add: d get_annotations_def dict_get_def)
  have no_description:
    "map_of f ''description'' = None \<longrightarrow> map_of d ''jiradescription'' = Some PyNone"
    using description fields f by (auto simp add: d dict_get_def)
  have no_versions:
    "map_of f ''fixVersions'' = None \<longrightarrow> map_of d ''jirafixversion'' = Some PyNone"
    using fix_version fields f by (auto simp add: d get_fix_version_closed_form)
  have no_estimate: "map_of f ''timeestimate'' = None
      \<and> \<not> py_eq_int (dict_get (extra i) ''jira_version'' PyNone) 4
      \<longrightarrow> map_of d ''jiraestimate'' = Some PyNone"
    using estimate fields f by (auto simp add: d get_estimate_def)
  have payload: "map_of (foreign_record i) ''fields'' = Some (PyDict f)"
    using fields f by simp
  show ?thesis
    apply (intro conjI)
       apply (rule keys)
      apply (rule unique)
     apply (rule no_annotations)
    apply (rule exI [of _ f])
    apply (intro conjI)
       apply (rule payload)
      apply (rule no_description)
     apply (rule no_versions)
    apply (rule no_estimate)
    done
qed

theorem to_taskwarrior_fixed_keys_witness:
  "\<exists>d. to_taskwarrior
       \<lparr>py_repr = (\<lambda>v. []), jinja_template = (\<lambda>source. Inl TemplateError)\<rparr>
       \<lparr>foreign_record = [(''key'', PyStr ''PROJ-123''),
          (''fields'', PyDict [(''summary'', PyStr ''Fix the login page''),
             (''created'', PyStr ''2016-06-06T13:07:08.123+0200''),
             (''priority'', PyDict [(''name'', PyStr ''Major'')])])],
        origin = [(''url'', PyStr ''https://jira.example.com''),
                  (''default_priority'', PyStr ''M''),
                  (''import_labels_as_tags'', PyBool False),
                  (''label_template'', PyStr ''{{label}}'')],
        extra = [(''jira_version'', PyInt 5)]\<rparr> = Inr d
     \<and> map fst d = [''project'', ''priority'', ''annotations'', ''tags'', ''entry'',
           ''jiraurl'', ''jiraid'', ''jiradescription'', ''jirasummary'', ''jiraestimate'',
           ''jirafixversion'']
     \<and> map_of d ''annotations'' = Some (PyList [])
     \<and> map_of d ''jiradescription'' = Some PyNone
     \<and> map_of d ''jiraestimate'' = Some PyNone
     \<and> map_of d ''jirafixversion'' = Some PyNone"
proof -
  define R where "R = \<lparr>py_repr = (\<lambda>v. []), jinja_template = (\<lambda>source. Inl TemplateError)\<rparr>"
  define f where "f = [(''summary'', PyStr ''Fix the login page''),
             (''created'', PyStr ''2016-06-06T13:07:08.123+0200''),
             (''priority'', PyDict [(''name'', PyStr ''Major'')])]"
  define i where "i = \<lparr>foreign_record = [(''key'', PyStr ''PROJ-123''), (''fields'', PyDict f)],
        origin = [(''url'', PyStr ''https://jira.example.com''),
                  (''default_priority'', PyStr ''M''),
                  (''import_labels_as_tags'', PyBool False),
                  (''label_template'', PyStr ''{{label}}'')],
        extra = [(''jira_version'', PyInt 5)]\<rparr>"
  have entry: "entry_of_created ''2016-06-06T13:07:08.123+0200'' = Inr ''20160606T130708+0200''"
    by (simp add: entry_eval cong: bind_weak_cong then_py_weak_cong)
  have "get_project i = Inr (PyStr ''PROJ'')"
    by (simp add: get_project_def rsplit_hyphen_def i_def)
  moreover have "get_priority R i = Inr (PyStr ''M'')"
    by (simp add: get_priority_def i_def f_def dict_get_def PRIORITY_MAP_def)
  moreover have "get_tags R i = Inr (PyList [])"
    by (simp add: get_tags_def i_def)
  moreover have "get_entry i = Inr (PyStr ''20160606T130708+0200'')"
    by (simp add: get_entry_def i_def f_def entry)
  moreover have "get_url i = Inr (PyStr ''https://jira.example.com/browse/PROJ-123'')"
    by (simp add: get_url_def i_def)
  moreover have "get_summary i = Inr (PyStr ''Fix the login page'')"
    by (simp add: get_summary_def i_def f_def dict_get_def)
  moreover have "get_estimate i = Inr PyNone"
    by (simp add: get_estimate_def i_def f_def dict_get_def)
  moreover have "get_fix_version i = Inr PyNone"
    by (simp add: get_fix_version_closed_form i_def f_def)
  ultimately have "\<exists>d. to_taskwarrior R i = Inr d"
    by (simp add: to_taskwarrior_def i_def f_def dict_get_def)
  then obtain d where d: "to_taskwarrior R i = Inr d" ..
  from to_taskwarrior_fixed_keys [OF d] d show ?thesis
    unfolding R_def i_def f_def
    by (intro exI [of _ d]) (simp add: dict_get_def)
qed

section \<open>Annotations and the schema version\<close>

lemma update_extra_fresh:
  "extra (update_extra (get_issue_for_record svc raw) new) = dict_update [] new"
  by (simp add: update_extra_def get_issue_for_record_def)

lemma issues_loop_legacy:
  assumes "jira_version \<le> 4"
  shows "issues_loop svc jira_version cases =
    \<lparr>yielded = map (\<lambda>c. update_extra (get_issue_for_record svc (case_raw c))
                          [(''jira_version'', PyInt jira_version)]) cases,
     comment_fetches = [], raised = None\<rparr>"
  using assms by (induction cases) (simp_all add: Let_def)

lemma issues_loop_current:
  assumes "jira_version > 4"
  shows "(\<forall>i \<in> set (yielded (issues_loop svc jira_version cases)).
            map_of (extra i) ''jira_version'' = Some (PyInt jira_version)
            \<and> (\<exists>a. map_of (extra i) ''annotations'' = Some a))
    \<and> (raised (issues_loop svc jira_version cases) = None
        \<longrightarrow> comment_fetches (issues_loop svc jira_version cases) = map case_key cases
          \<and> list_all2
                (\<lambda>c i. annotations svc c (get_issue_for_record svc (case_raw c))
                          = Inr (get_annotations i))
                cases (yielded (issues_loop svc jira_version cases)))
    \<and> (cases \<noteq> [] \<longrightarrow> comment_fetches (issues_loop svc jira_version cases) \<noteq> [])"
proof (induction cases)
  case Nil
  show ?case by simp
next
  case (Cons c cases)
  show ?case
  proof (cases "annotations svc c (get_issue_for_record svc (case_raw c))")
    case (Inl e)
    with assms show ?thesis by simp
  next
    case (Inr fetched)
    have entry: "extra (update_extra (get_issue_for_record svc (case_raw c))
        [(''jira_version'', PyInt jira_version), (''annotations'', fetched)])
        = [(''jira_version'', PyInt jira_version), (''annotations'', fetched)]"
      by (simp add: update_extra_fresh dict_update_def)
    from assms Inr Cons.IH show ?thesis
      by (simp add: Let_def entry get_annotations_def dict_get_def)
  qed
qed

text \<open>
  C10. When the configured schema version is 4 or lower, a run of \<^verbatim>\<open>issues\<close> requests no
  comments from the tracker, is ended by no exception, yields one issue per search result,
  and every yielded issue has the version and no \<^verbatim>\<open>annotations\<close> entry in its extra
  metadata, so that \<^verbatim>\<open>get_annotations\<close> returns the empty list. When no version is
  configured, the run is the one of version 5: every yielded issue has version 5 and an
  \<^verbatim>\<open>annotations\<close> entry, comments are requested as soon as there is a search result, and a
  run that no exception ends has requested the comments of every search result, in order,
  each yielded issue carrying what \<^verbatim>\<open>annotations\<close> returned for it.
\<close>

theorem issues_annotations_by_version:
  assumes "search_issues svc = Inr cases"
  shows "(jira_version_option svc = Some (Inr v) \<and> v \<le> 4
          \<longrightarrow> comment_fetches (issues svc) = [] \<and> raised (issues svc) = None
            \<and> length (yielded (issues svc)) = length cases
            \<and> (\<forall>i \<in> set (yielded (issues svc)).
                  map_of (extra i) ''jira_version'' = Some (PyInt v)
                  \<and> map_of (extra i) ''annotations'' = None
                  \<and> get_annotations i = PyList []))
    \<and> (jira_version_option svc = None
          \<longrightarrow> issues svc = issues_loop svc 5 cases
            \<and> (\<forall>i \<in> set (yielded (issues svc)).
                  map_of (extra i) ''jira_version'' = Some (PyInt 5)
                  \<and> (\<exists>a. map_of (extra i) ''annotations'' = Some a))
            \<and> (cases \<noteq> [] \<longrightarrow> comment_fetches (issues svc) \<noteq> [])
            \<and> (raised (issues svc) = None
                \<longrightarrow> comment_fetches (issues svc) = map case_key cases
                  \<and> list_all2
                        (\<lambda>c i. annotations svc c (get_issue_for_record svc (case_raw c))
                                  = Inr (get_annotations i))
                        cases (yielded (issues svc))))"
proof (intro conjI impI)
  assume legacy: "jira_version_option svc = Some (Inr v) \<and> v \<le> 4"
  then have run: "issues svc =
      \<lparr>yielded = map (\<lambda>c. update_extra (get_issue_for_record svc (case_raw c))
                            [(''jira_version'', PyInt v)]) cases,
       comment_fetches = [], raised = None\<rparr>"
    using assms by (simp add: issues_def issues_loop_legacy)
  show "comment_fetches (issues svc) = []" "raised (issues svc) = None"
    "length (yielded (issues svc)) = length cases"
    by (simp_all add: run)
  show "\<forall>i \<in> set (yielded (issues svc)).
      map_of (extra i) ''jira_version'' = Some (PyInt v)
      \<and> map_of (extra i) ''annotations'' = None \<and> get_annotations i = PyList []"
    by (auto simp add: run update_extra_fresh dict_update_def get_annotations_def dict_get_def)
next
  assume "jira_version_option svc = None"
  then have run: "issues svc = issues_loop svc 5 cases"
    using assms by (simp add: issues_def)
  have five: "(5::int) > 4" by simp
  note current = issues_loop_current [OF five, of svc cases]
  show "issues svc = issues_loop svc 5 cases"
    by (rule run)
  show "\<forall>i \<in> set (yielded (issues svc)).
      map_of (extra i) ''jira_version'' = Some (PyInt 5)
      \<and> (\<exists>a. map_of (extra i) ''annotations'' = Some a)"
    using current by (simp add: run)
  show "comment_fetches (issues svc) \<noteq> []" if "cases \<noteq> []"
    using current that by (simp add: run)
  show "comment_fetches (issues svc) = map case_key cases" if "raised (issues svc) = None"
    using current that by (simp add: run)
  show "list_all2
      (\<lambda>c i. annotations svc c (get_issue_for_record svc (case_raw c)) = Inr (get_annotations i))
      cases (yielded (issues svc))" if "raised (issues svc) = None"
    using current that by (simp add: run)
qed

theorem issues_annotations_by_version_witness:
  "comment_fetches (issues
      \<lparr>service_url = ''https://jira.example.com'', import_labels_as_tags = False,
       label_template = ''{{label}}'', base_origin = [(''default_priority'', PyStr ''M'')],
       jira_version_option = Some (Inr 4),
       search_issues = Inr [\<lparr>case_key = ''PROJ-1'', case_raw = [(''key'', PyStr ''PROJ-1'')]\<rparr>,
                           \<lparr>case_key = ''PROJ-2'', case_raw = [(''key'', PyStr ''PROJ-2'')]\<rparr>],
       jira_comments = (\<lambda>key. Inr [(''alice'', ''looks good'')]),
       build_annotations = (\<lambda>comments url.
         Inr (PyList (map (\<lambda>c. PyStr (''@'' @ fst c @ '' - '' @ snd c)) comments))),
       get_processed_url = (\<lambda>issue url. Inr url)\<rparr>) = []
   \<and> map get_annotations (yielded (issues
      \<lparr>service_url = ''https://jira.example.com'', import_labels_as_tags = False,
       label_template = ''{{label}}'', base_origin = [(''default_priority'', PyStr ''M'')],
       jira_version_option = Some (Inr 4),
       search_issues = Inr [\<lparr>case_key = ''PROJ-1'', case_raw = [(''key'', PyStr ''PROJ-1'')]\<rparr>,
                           \<lparr>case_key = ''PROJ-2'', case_raw = [(''key'', PyStr ''PROJ-2'')]\<rparr>],
       jira_comments = (\<lambda>key. Inr [(''alice'', ''looks good'')]),
       build_annotations = (\<lambda>comments url.
         Inr (PyList (map (\<lambda>c. PyStr (''@'' @ fst c @ '' - '' @ snd c)) comments))),
       get_processed_url = (\<lambda>issue url. Inr url)\<rparr>)) = [PyList [], PyList []]
   \<and> comment_fetches (issues
      \<lparr>service_url = ''https://jira.example.com'', import_labels_as_tags = False,
       label_template = ''{{label}}'', base_origin = [(''default_priority'', PyStr ''M'')],
       jira_version_option = None,
       search_issues = Inr [\<lparr>case_key = ''PROJ-1'', case_raw = [(''key'', PyStr ''PROJ-1'')]\<rparr>,
                           \<lparr>case_key = ''PROJ-2'', case_raw = [(''key'', PyStr ''PROJ-2'')]\<rparr>],
       jira_comments = (\<lambda>key. Inr [(''alice'', ''looks good'')]),
       build_annotations = (\<lambda>comments url.
         Inr (PyList (map (\<lambda>c. PyStr (''@'' @ fst c @ '' - '' @ snd c)) comments))),
       get_processed_url = (\<lambda>issue url. Inr url)\<rparr>) = [''PROJ-1'', ''PROJ-2'']
   \<and> map get_annotations (yielded (issues
      \<lparr>service_url = ''https://jira.example.com'', import_labels_as_tags = False,
       label_template = ''{{label}}'', base_origin = [(''default_priority'', PyStr ''M'')],
       jira_version_option = None,
       search_issues = Inr [\<lparr>case_key = ''PROJ-1'', case_raw = [(''key'', PyStr ''PROJ-1'')]\<rparr>,
                           \<lparr>case_key = ''PROJ-2'', case_raw = [(''key'', PyStr ''PROJ-2'')]\<rparr>],
       jira_comments = (\<lambda>key. Inr [(''alice'', ''looks good'')]),
       build_annotations = (\<lambda>comments url.
         Inr (PyList (map (\<lambda>c. PyStr (''@'' @ fst c @ '' - '' @ snd c)) comments))),
       get_processed_url = (\<lambda>issue url. Inr url)\<rparr>))
     = [PyList [PyStr ''@alice - looks good''], PyList [PyStr ''@alice - looks good'']]"
proof -
  define cases where "cases =
    [\<lparr>case_key = ''PROJ-1'', case_raw = [(''key'', PyStr ''PROJ-1'')]\<rparr>,
     \<lparr>case_key = ''PROJ-2'', case_raw = [(''key'', PyStr ''PROJ-2'')]\<rparr>]"
  define svc where "svc = (\<lambda>version.
     \<lparr>service_url = ''https://jira.example.com'', import_labels_as_tags = False,
       label_template = ''{{label}}'', base_origin = [(''default_priority'', PyStr ''M'')],
       jira_version_option = version,
       search_issues = Inr cases,
       jira_comments = (\<lambda>key. Inr [(''alice'', ''looks good'')]),
       build_annotations = (\<lambda>comments url.
         Inr (PyList (map (\<lambda>c. PyStr (''@'' @ fst c @ '' - '' @ snd c)) comments))),
       get_processed_url = (\<lambda>issue url. Inr url)\<rparr>)"
  have found: "search_issues (svc version) = Inr cases" for version
    by (simp add: svc_def)
  have configured: "jira_version_option (svc (Some (Inr 4))) = Some (Inr 4)"
    and unconfigured: "jira_version_option (svc None) = None"
    by (simp_all add: svc_def)
  have fetched: "annotations (svc None) c (get_issue_for_record (svc None) [(''key'', PyStr k)])
      = Inr (PyList [PyStr ''@alice - looks good''])" for c k
    by (simp add: annotations_def svc_def get_url_def get_issue_for_record_def
          get_service_metadata_def dict_update_def)
  have current_run: "raised (issues (svc None)) = None"
    using found [of None] by (simp add: issues_def unconfigured cases_def Let_def fetched)
  from issues_annotations_by_version [OF found, of "Some (Inr 4)" 4] configured have legacy:
    "comment_fetches (issues (svc (Some (Inr 4)))) = []"
    "length (yielded (issues (svc (Some (Inr 4))))) = length cases"
    "\<forall>i \<in> set (yielded (issues (svc (Some (Inr 4))))). get_annotations i = PyList []"
    by simp_all
  from issues_annotations_by_version [OF found, of None] unconfigured current_run have current:
    "comment_fetches (issues (svc None)) = map case_key cases"
    "list_all2
       (\<lambda>c i. annotations (svc None) c (get_issue_for_record (svc None) (case_raw c))
                 = Inr (get_annotations i))
       cases (yielded (issues (svc None)))"
    by blast+
  from legacy(2,3) have "map get_annotations (yielded (issues (svc (Some (Inr 4)))))
      = [PyList [], PyList []]"
    by (auto simp add: cases_def length_Suc_conv)
  moreover from current(2) fetched
  have "map get_annotations (yielded (issues (svc None)))
      = [PyList [PyStr ''@alice - looks good''], PyList [PyStr ''@alice - looks good'']]"
    by (auto simp add: cases_def list_all2_Cons1)
  ultimately show ?thesis
    using legacy(1) current(1) by (simp add: svc_def cases_def)
qed

end
